theory Spec2Isabelle
  imports Complex_Main
begin

section \<open>Errors, the transport and the command strings\<close>

text \<open>
  The driver \<^verbatim>\<open>KeysightB1500_base.py\<close> talks to the mainframe through the VISA
  instrument it extends. Every Python exception the modelled methods can raise is a
  constructor of \<open>error\<close>; a method that may raise returns \<open>error + 'a\<close> with
  \<open>Inl\<close> for the exception. \<open>TransportError\<close> and \<open>Timeout\<close> are what the
  transport itself may raise, \<open>InvalidParameter\<close> what a command encoder may raise.
\<close>

datatype error =
    ValueError string
  | RuntimeError string
  | KeyError int
  | Exception string
  | ZeroDivisionError
  | TransportError string
  | Timeout
  | InvalidParameter string

text \<open>
  The transport is a trace of what was sent, each query with the timeout that was in
  force when it was sent, and the current timeout. The instrument on the other end is
  a \<open>device\<close>: what it answers to a query and whether a raw write fails, both as a
  function of everything sent so far.
\<close>

datatype event = Written string | Asked string real

record transport =
  trace :: "event list"
  timeout :: real

record device =
  on_write :: "event list \<Rightarrow> string \<Rightarrow> error option"
  on_ask :: "event list \<Rightarrow> string \<Rightarrow> real \<Rightarrow> error + string"

text \<open>
  \<^verbatim>\<open>MessageBuilder\<close> and \<^verbatim>\<open>constants\<close> are imported by the driver but are not among
  the sources. The command strings the driver asks the builder for are therefore
  parameters of the model: \<open>errx_query\<close> is \<^verbatim>\<open>errx_query(mode=None).message\<close>,
  \<open>lrn_query t\<close> is \<^verbatim>\<open>lrn_query(type_id=t).message\<close>, and so on. An encoder that takes
  caller-supplied arguments (\<open>mm\<close>, \<open>ait\<close>) may raise. The enumerations of
  \<^verbatim>\<open>constants\<close> are given by the lists of their members' values.
\<close>

datatype ait_type = HIGH_SPEED | HIGH_RESOLUTION

datatype ait_mode = MANUAL | NPLC

record message_builder =
  errx_query :: string
  lrn_query :: "int \<Rightarrow> string"
  fmt :: "int \<Rightarrow> int \<Rightarrow> string"
  xe :: string
  mm :: "int \<Rightarrow> int list option \<Rightarrow> error + string"
  ait :: "ait_type \<Rightarrow> ait_mode \<Rightarrow> int option \<Rightarrow> error + string"

record constants =
  TM_AV_CM_FMT_MM_SETTINGS :: int
  MM_Mode :: "int list"
  FMT_Format :: "int list"
  FMT_Mode :: "int list"

text \<open>\<^verbatim>\<open>super().write(cmd)\<close>: the raw write of the VISA instrument.\<close>

definition visa_write :: "device \<Rightarrow> string \<Rightarrow> transport \<Rightarrow> (error + unit) \<times> transport" where
  "visa_write dev cmd tr =
     (case on_write dev (trace tr) cmd of
        Some e \<Rightarrow> Inl e
      | None \<Rightarrow> Inr (),
      tr\<lparr>trace := trace tr @ [Written cmd]\<rparr>)"

text \<open>\<^verbatim>\<open>self.ask(cmd)\<close>: one blocking query under the current timeout.\<close>

definition ask :: "device \<Rightarrow> string \<Rightarrow> transport \<Rightarrow> (error + string) \<times> transport" where
  "ask dev cmd tr =
     (on_ask dev (trace tr) cmd (timeout tr),
      tr\<lparr>trace := trace tr @ [Asked cmd (timeout tr)]\<rparr>)"

text \<open>\<^verbatim>\<open>KeysightB1500.error_message\<close> with its default \<^verbatim>\<open>mode=None\<close>.\<close>

definition error_message :: "message_builder \<Rightarrow> device \<Rightarrow> transport \<Rightarrow> (error + string) \<times> transport" where
  "error_message mb dev tr = ask dev (errx_query mb) tr"

text \<open>
  \<^verbatim>\<open>KeysightB1500.write\<close> (\<open>write\<close> is a keyword of Isabelle, hence the prefix):
  the raw write, then the error queue is read, and anything but the literal
  \<^verbatim>\<open>+0,"No Error."\<close> raises \<^verbatim>\<open>RuntimeError\<close> with the message appended.
\<close>

definition no_error_literal :: string where
  \<open>no_error_literal = ''+0,"No Error."''\<close>

definition b1500_write :: "message_builder \<Rightarrow> device \<Rightarrow> string \<Rightarrow> transport \<Rightarrow> (error + unit) \<times> transport" where
  "b1500_write mb dev cmd tr =
     (case visa_write dev cmd tr of
        (Inl e, tr1) \<Rightarrow> (Inl e, tr1)
      | (Inr u, tr1) \<Rightarrow>
          (case error_message mb dev tr1 of
             (Inl e, tr2) \<Rightarrow> (Inl e, tr2)
           | (Inr msg, tr2) \<Rightarrow>
               if msg \<noteq> no_error_literal
               then (Inl (RuntimeError (''While setting this parameter received error: '' @ msg)), tr2)
               else (Inr (), tr2)))"

section \<open>The module registry\<close>

text \<open>
  A module as the driver uses it: the attributes \<^verbatim>\<open>add_module\<close> reads, and those of
  an SMU that \<^verbatim>\<open>IVSweepMeasurement.get_raw\<close> reads (\<open>step_delay\<close> and \<open>sweep_steps\<close>
  are the values of \<^verbatim>\<open>smu.iv_sweep.step_delay()\<close> and \<^verbatim>\<open>smu.iv_sweep.sweep_steps()\<close>,
  \<open>average_coefficient\<close> is \<^verbatim>\<open>smu._average_coefficient\<close>). The SMU class is not
  among the sources: reading these values is taken to send nothing to the
  instrument. Python floats are modelled by exact reals.
\<close>

record b1500_module =
  full_name :: string
  MODULE_KIND :: string
  slot_nr :: int
  channels :: "int list"
  setup_fnc_already_run :: bool
  average_coefficient :: int
  power_line_frequency :: real
  step_delay :: real
  sweep_steps :: int

text \<open>
  The three dictionaries of \<^verbatim>\<open>KeysightB1500.__init__\<close>; \<open>by_kind\<close> is a
  \<^verbatim>\<open>defaultdict(list)\<close>, so a kind never registered reads as the empty list.
  \<open>submodules\<close> is what the base class's \<^verbatim>\<open>add_submodule\<close> keeps.
\<close>

record instrument =
  submodules :: "string \<rightharpoonup> b1500_module"
  by_slot :: "int \<rightharpoonup> b1500_module"
  by_channel :: "int \<rightharpoonup> b1500_module"
  by_kind :: "string \<Rightarrow> b1500_module list"

text \<open>
  \<^verbatim>\<open>KeysightB1500.add_module\<close>. The base class's \<^verbatim>\<open>add_submodule\<close> is not among
  the sources: it is the parameter \<open>add_submodule\<close>, which sees the submodule
  dictionary only and may raise.
\<close>

definition add_module ::
  "((string \<rightharpoonup> b1500_module) \<Rightarrow> string \<Rightarrow> b1500_module \<Rightarrow> error + (string \<rightharpoonup> b1500_module)) \<Rightarrow>
   string \<Rightarrow> b1500_module \<Rightarrow> instrument \<Rightarrow> error + instrument" where
  "add_module add_submodule name m inst =
     (case add_submodule (submodules inst) name m of
        Inl e \<Rightarrow> Inl e
      | Inr subs \<Rightarrow>
          Inr \<lparr>submodules = subs,
               by_slot = (by_slot inst)(slot_nr m \<mapsto> m),
               by_channel = fold (\<lambda>ch bc. bc(ch \<mapsto> m)) (channels m) (by_channel inst),
               by_kind = (by_kind inst)(MODULE_KIND m := by_kind inst (MODULE_KIND m) @ [m])\<rparr>)"

section \<open>Parsing the settings response\<close>

text \<open>
  \<^verbatim>\<open>re.search('MM(?P<mode>.*?),(?P<channels>.*?)(;|$)', response)\<close> as a backtracking
  matcher. \<open>lazy_dots k s\<close> is \<^verbatim>\<open>.*?\<close> followed by the rest of the pattern \<open>k\<close>: it
  tries the rest first and consumes one more character only when the rest fails;
  \<^verbatim>\<open>.\<close> does not match a newline. \<open>re_end\<close> is \<^verbatim>\<open>(;|$)\<close>, where \<^verbatim>\<open>$\<close> matches at
  the end of the string and before a newline that ends the string.
\<close>

fun lazy_dots :: "(string \<Rightarrow> 'a option) \<Rightarrow> string \<Rightarrow> (string \<times> 'a) option" where
  "lazy_dots k [] = (case k [] of Some r \<Rightarrow> Some ([], r) | None \<Rightarrow> None)"
| "lazy_dots k (c # cs) =
     (case k (c # cs) of
        Some r \<Rightarrow> Some ([], r)
      | None \<Rightarrow>
          if c = CHR ''\<newline>'' then None
          else (case lazy_dots k cs of
                  Some (g, r) \<Rightarrow> Some (c # g, r)
                | None \<Rightarrow> None))"

definition re_end :: "string \<Rightarrow> unit option" where
  "re_end s = (if take 1 s = '';'' \<or> s = [] \<or> s = [CHR ''\<newline>''] then Some () else None)"

definition comma_then :: "(string \<Rightarrow> 'a option) \<Rightarrow> string \<Rightarrow> 'a option" where
  "comma_then k s = (case s of [] \<Rightarrow> None | c # cs \<Rightarrow> if c = CHR '','' then k cs else None)"

text \<open>The pattern anchored at the start of \<open>s\<close>; the result is the two named groups.\<close>

definition match_tagged :: "string \<Rightarrow> string \<Rightarrow> (string \<times> string) option" where
  "match_tagged tag s =
     (if take (length tag) s = tag
      then (case lazy_dots (comma_then (lazy_dots re_end)) (drop (length tag) s) of
              Some (g1, (g2, u)) \<Rightarrow> Some (g1, g2)
            | None \<Rightarrow> None)
      else None)"

text \<open>\<^verbatim>\<open>re.search\<close>: the leftmost position at which the pattern matches.\<close>

fun re_search :: "string \<Rightarrow> string \<Rightarrow> (string \<times> string) option" where
  "re_search tag [] = match_tagged tag []"
| "re_search tag (c # cs) =
     (case match_tagged tag (c # cs) of
        Some g \<Rightarrow> Some g
      | None \<Rightarrow> re_search tag cs)"

text \<open>
  For stating what a response lacks: \<open>contains_tag tag s\<close> holds when \<open>tag\<close> occurs
  somewhere in \<open>s\<close>.
\<close>

fun contains_tag :: "string \<Rightarrow> string \<Rightarrow> bool" where
  "contains_tag tag [] = (tag = [])"
| "contains_tag tag (c # cs) = (take (length tag) (c # cs) = tag \<or> contains_tag tag cs)"

text \<open>
  Python's \<^verbatim>\<open>int(s)\<close> on a string of ASCII text, which is what the instrument
  sends: surrounding whitespace (tab, line feed, vertical tab, form feed, carriage
  return, space) is dropped, then an optional sign and decimal digits, single
  underscores allowed between digits. \<open>None\<close> is \<^verbatim>\<open>ValueError\<close>.
\<close>

definition py_isspace :: "char \<Rightarrow> bool" where
  "py_isspace c = (of_char c \<in> set [9, 10, 11, 12, 13, 32 :: nat])"

definition py_strip :: "string \<Rightarrow> string" where
  "py_strip s = rev (dropWhile py_isspace (rev (dropWhile py_isspace s)))"

definition digit_val :: "char \<Rightarrow> nat option" where
  "digit_val c = (if 48 \<le> (of_char c :: nat) \<and> (of_char c :: nat) \<le> 57 then Some (of_char c - 48) else None)"

fun py_digits_from :: "nat \<Rightarrow> string \<Rightarrow> nat option" where
  "py_digits_from acc [] = Some acc"
| "py_digits_from acc [c] =
     (case digit_val c of None \<Rightarrow> None | Some v \<Rightarrow> Some (10 * acc + v))"
| "py_digits_from acc (c # d # ds) =
     (if c = CHR ''_''
      then (case digit_val d of None \<Rightarrow> None | Some v \<Rightarrow> py_digits_from (10 * acc + v) ds)
      else (case digit_val c of None \<Rightarrow> None | Some v \<Rightarrow> py_digits_from (10 * acc + v) (d # ds)))"

definition py_digits :: "string \<Rightarrow> nat option" where
  "py_digits s =
     (case s of
        [] \<Rightarrow> None
      | c # cs \<Rightarrow> (case digit_val c of None \<Rightarrow> None | Some v \<Rightarrow> py_digits_from v cs))"

definition py_int :: "string \<Rightarrow> int option" where
  "py_int s =
     (case py_strip s of
        [] \<Rightarrow> None
      | c # cs \<Rightarrow>
          if c = CHR ''-'' then map_option (\<lambda>n. - int n) (py_digits cs)
          else if c = CHR ''+'' then map_option int (py_digits cs)
          else map_option int (py_digits (c # cs)))"

text \<open>\<^verbatim>\<open>s.split(',')\<close>: never empty, one more piece than there are separators.\<close>

fun split_on :: "char \<Rightarrow> string \<Rightarrow> string list" where
  "split_on d [] = [[]]"
| "split_on d (c # cs) =
     (if c = d then [] # split_on d cs
      else (case split_on d cs of
              w # ws \<Rightarrow> (c # w) # ws
            | [] \<Rightarrow> [[c]]))"

text \<open>
  \<^verbatim>\<open>list(map(int, pieces))\<close>: the first piece that is not an integer raises.
\<close>

fun py_ints :: "string list \<Rightarrow> int list option" where
  "py_ints [] = Some []"
| "py_ints (w # ws) =
     (case py_int w of
        None \<Rightarrow> None
      | Some i \<Rightarrow> (case py_ints ws of None \<Rightarrow> None | Some js \<Rightarrow> Some (i # js)))"

text \<open>
  Calling an enumeration of \<^verbatim>\<open>constants\<close> on a value: \<^verbatim>\<open>ValueError\<close> unless it is a
  member. The text of the messages Python's runtime composes for \<^verbatim>\<open>int\<close> and for an
  enumeration is abbreviated (the offending value is left out).
\<close>

definition py_enum :: "int list \<Rightarrow> int \<Rightarrow> error + int" where
  "py_enum members v = (if v \<in> set members then Inr v else Inl (ValueError ''not a valid member''))"

definition int_of_group :: "string \<Rightarrow> error + int" where
  "int_of_group s =
     (case py_int s of
        None \<Rightarrow> Inl (ValueError ''invalid literal for int() with base 10'')
      | Some i \<Rightarrow> Inr i)"

record measurement_mode =
  mm_mode :: int
  mm_channels :: "int list"

record format_and_mode =
  fm_format :: int
  fm_mode :: int

text \<open>The body of \<^verbatim>\<open>get_measurement_mode\<close> after the query (lines 374 to 383).\<close>

definition parse_measurement_mode :: "constants \<Rightarrow> string \<Rightarrow> error + measurement_mode" where
  "parse_measurement_mode cs response =
     (case re_search ''MM'' response of
        None \<Rightarrow> Inl (ValueError ''Measurement Mode (MM) not found.'')
      | Some (g_mode, g_channels) \<Rightarrow>
          (case int_of_group g_mode of
             Inl e \<Rightarrow> Inl e
           | Inr i \<Rightarrow>
               (case py_enum (MM_Mode cs) i of
                  Inl e \<Rightarrow> Inl e
                | Inr m \<Rightarrow>
                    (case py_ints (split_on CHR '','' g_channels) of
                       None \<Rightarrow> Inl (ValueError ''invalid literal for int() with base 10'')
                     | Some chs \<Rightarrow> Inr \<lparr>mm_mode = m, mm_channels = chs\<rparr>))))"

definition get_measurement_mode ::
  "message_builder \<Rightarrow> constants \<Rightarrow> device \<Rightarrow> transport \<Rightarrow> (error + measurement_mode) \<times> transport" where
  "get_measurement_mode mb cs dev tr =
     (case ask dev (lrn_query mb (TM_AV_CM_FMT_MM_SETTINGS cs)) tr of
        (Inl e, tr1) \<Rightarrow> (Inl e, tr1)
      | (Inr response, tr1) \<Rightarrow> (parse_measurement_mode cs response, tr1))"

text \<open>The body of \<^verbatim>\<open>get_response_format_and_mode\<close> after the query (lines 393 to 405).\<close>

definition parse_format_and_mode :: "constants \<Rightarrow> string \<Rightarrow> error + format_and_mode" where
  "parse_format_and_mode cs response =
     (case re_search ''FMT'' response of
        None \<Rightarrow> Inl (ValueError ''Measurement Mode (FMT) not found.'')
      | Some (g_format, g_mode) \<Rightarrow>
          (case int_of_group g_format of
             Inl e \<Rightarrow> Inl e
           | Inr i \<Rightarrow>
               (case py_enum (FMT_Format cs) i of
                  Inl e \<Rightarrow> Inl e
                | Inr f \<Rightarrow>
                    (case int_of_group g_mode of
                       Inl e \<Rightarrow> Inl e
                     | Inr j \<Rightarrow>
                         (case py_enum (FMT_Mode cs) j of
                            Inl e \<Rightarrow> Inl e
                          | Inr m \<Rightarrow> Inr \<lparr>fm_format = f, fm_mode = m\<rparr>)))))"

definition get_response_format_and_mode ::
  "message_builder \<Rightarrow> constants \<Rightarrow> device \<Rightarrow> transport \<Rightarrow> (error + format_and_mode) \<times> transport" where
  "get_response_format_and_mode mb cs dev tr =
     (case ask dev (lrn_query mb (TM_AV_CM_FMT_MM_SETTINGS cs)) tr of
        (Inl e, tr1) \<Rightarrow> (Inl e, tr1)
      | (Inr response, tr1) \<Rightarrow> (parse_format_and_mode cs response, tr1))"


section \<open>The integration-time command\<close>

text \<open>
  The coefficient a caller hands to \<^verbatim>\<open>_setup_integration_time\<close>: the annotation says
  \<^verbatim>\<open>Optional[int]\<close>, but nothing checks it, and the method applies \<^verbatim>\<open>int\<close> to what it
  gets. On a float \<^verbatim>\<open>int\<close> truncates toward zero (floats are modelled by reals; nan
  and the infinities are not represented).
\<close>

datatype py_number = PyInt int | PyFloat real

fun int_of_number :: "py_number \<Rightarrow> int" where
  "int_of_number (PyInt i) = i"
| "int_of_number (PyFloat x) = (if 0 \<le> x then \<lfloor>x\<rfloor> else \<lceil>x\<rceil>)"

text \<open>
  \<^verbatim>\<open>_setup_integration_time\<close>: the coefficient is coerced, the encoder builds the
  message (and may raise), and only then \<^verbatim>\<open>write\<close> is called.
\<close>

definition setup_integration_time ::
  "message_builder \<Rightarrow> device \<Rightarrow> ait_type \<Rightarrow> ait_mode \<Rightarrow> py_number option \<Rightarrow> transport \<Rightarrow>
   (error + unit) \<times> transport" where
  "setup_integration_time mb dev adc_type mode coeff tr =
     (let coeff' = (case coeff of None \<Rightarrow> None | Some c \<Rightarrow> Some (int_of_number c)) in
      case ait mb adc_type mode coeff' of
        Inl e \<Rightarrow> (Inl e, tr)
      | Inr msg \<Rightarrow> b1500_write mb dev msg tr)"

definition use_nplc_for_high_speed_adc ::
  "message_builder \<Rightarrow> device \<Rightarrow> py_number option \<Rightarrow> transport \<Rightarrow> (error + unit) \<times> transport" where
  "use_nplc_for_high_speed_adc mb dev n tr = setup_integration_time mb dev HIGH_SPEED NPLC n tr"

definition use_nplc_for_high_resolution_adc ::
  "message_builder \<Rightarrow> device \<Rightarrow> py_number option \<Rightarrow> transport \<Rightarrow> (error + unit) \<times> transport" where
  "use_nplc_for_high_resolution_adc mb dev n tr = setup_integration_time mb dev HIGH_RESOLUTION NPLC n tr"


text \<open>
  Modelled from the spec: the range check of the encoder \<^verbatim>\<open>MessageBuilder.ait\<close>, which
  is not among the sources. The spec (4.1): an optional integer coefficient, when
  provided, must be within the command's documented range, 1 to 100 for NPLC
  averaging and 1 to 1023 for manual averaging; out of range fails with
  \<^verbatim>\<open>InvalidParameter\<close>. The text of an accepted command is the parameter \<open>render\<close>.
\<close>

definition ait_in_range :: "ait_mode \<Rightarrow> int \<Rightarrow> bool" where
  "ait_in_range mode c = (case mode of NPLC \<Rightarrow> 1 \<le> c \<and> c \<le> 100 | MANUAL \<Rightarrow> 1 \<le> c \<and> c \<le> 1023)"

text \<open>
  Modelled from the spec: the encoder \<^verbatim>\<open>MessageBuilder.ait\<close> with that range check;
  an omitted coefficient is encoded as it is.
\<close>

definition ait_spec ::
  "(ait_type \<Rightarrow> ait_mode \<Rightarrow> int option \<Rightarrow> string) \<Rightarrow> ait_type \<Rightarrow> ait_mode \<Rightarrow> int option \<Rightarrow> error + string" where
  "ait_spec render adc_type mode coeff =
     (case coeff of
        None \<Rightarrow> Inr (render adc_type mode None)
      | Some c \<Rightarrow>
          if ait_in_range mode c then Inr (render adc_type mode (Some c))
          else Inl (InvalidParameter ''coeff''))"

section \<open>The staircase sweep\<close>

text \<open>
  \<^verbatim>\<open>_FMTResponse\<close>, the named tuple of four parallel lists that
  \<^verbatim>\<open>fmt_response_base_parser\<close> returns. The parser is not among the sources and is a
  parameter of \<open>get_raw\<close>.
\<close>

record fmt_response =
  fmt_value :: "real list"
  fmt_status :: "string list"
  fmt_channel :: "string list"
  fmt_type :: "string list"

text \<open>
  The extended slice \<^verbatim>\<open>xs[start::step]\<close> for \<open>0 < step\<close>: the elements at
  \<open>start\<close>, \<open>start + step\<close>, ... below the length. It never raises.
\<close>

definition slice_step :: "nat \<Rightarrow> nat \<Rightarrow> 'a list \<Rightarrow> 'a list" where
  "slice_step start step xs =
     map (\<lambda>j. xs ! (start + j * step)) [0 ..< (length xs + step - 1 - start) div step]"

text \<open>
  \<^verbatim>\<open>_FMTResponse(*[parsed_data[i][k::3] for i in range(0, 4)])\<close> (lines 499 to 504).
\<close>

definition deinterleave :: "nat \<Rightarrow> fmt_response \<Rightarrow> fmt_response" where
  "deinterleave k p =
     \<lparr>fmt_value = slice_step k 3 (fmt_value p),
      fmt_status = slice_step k 3 (fmt_status p),
      fmt_channel = slice_step k 3 (fmt_channel p),
      fmt_type = slice_step k 3 (fmt_type p)\<rparr>"

text \<open>
  What a successful \<open>get_raw\<close> leaves in the parameter; the value it returns is
  \<open>(fmt_value (param1 r), fmt_value (param2 r))\<close>.
\<close>

record sweep_result =
  param1 :: fmt_response
  param2 :: fmt_response
  source_voltage :: fmt_response
  shapes :: "nat list list"
  setpoints :: "real list list list"

definition decompose :: "fmt_response \<Rightarrow> sweep_result" where
  "decompose parsed_data =
     (let sv = deinterleave 2 parsed_data in
      \<lparr>param1 = deinterleave 0 parsed_data,
       param2 = deinterleave 1 parsed_data,
       source_voltage = sv,
       shapes = [[length (fmt_value sv)], [length (fmt_value sv)]],
       setpoints = [[fmt_value sv], [fmt_value sv]]\<rparr>)"

definition fudge :: real where
  "fudge = 3 / 2"

text \<open>
  The timeout of lines 473 to 485. \<^verbatim>\<open>1 / smu.power_line_frequency\<close> raises
  \<^verbatim>\<open>ZeroDivisionError\<close> when the frequency is zero.
\<close>

definition sweep_timeout :: "b1500_module \<Rightarrow> error + real" where
  "sweep_timeout smu =
     (let delay_time = step_delay smu in
      case (if average_coefficient smu < 0
            then (if power_line_frequency smu = 0 then Inl ZeroDivisionError
                  else (let nplc = 128 * \<bar>average_coefficient smu\<bar>;
                            power_line_time_period = 1 / power_line_frequency smu
                        in Inr (2 * real_of_int nplc * power_line_time_period)))
            else Inr (real_of_int (average_coefficient smu) * delay_time)) of
        Inl e \<Rightarrow> Inl e
      | Inr calculated_time \<Rightarrow>
          (let num_steps = sweep_steps smu;
               estimated_timeout = max delay_time calculated_time * real_of_int num_steps;
               new_timeout = estimated_timeout * fudge
           in Inr new_timeout))"

text \<open>
  Modelled from the spec: the scoped override \<^verbatim>\<open>timeout.set_to\<close> of the transport,
  which is not among the sources. It sets the timeout for the duration of one block
  and reverts to the previous value on every exit from the block, also when the block
  raises (spec, section 5); setting the timeout sends nothing.
\<close>

definition with_timeout :: "real \<Rightarrow> (transport \<Rightarrow> 'a \<times> transport) \<Rightarrow> transport \<Rightarrow> 'a \<times> transport" where
  "with_timeout t block tr =
     (case block (tr\<lparr>timeout := t\<rparr>) of
        (r, tr1) \<Rightarrow> (r, tr1\<lparr>timeout := timeout tr\<rparr>))"

text \<open>
  The body of the \<^verbatim>\<open>try\<close> (lines 491 to 494): the fixed format is written, and under
  the computed timeout the sweep is executed and its response parsed.
\<close>

definition sweep_try ::
  "message_builder \<Rightarrow> (string \<Rightarrow> error + fmt_response) \<Rightarrow> device \<Rightarrow> real \<Rightarrow> transport \<Rightarrow>
   (error + fmt_response) \<times> transport" where
  "sweep_try mb parser dev new_timeout tr =
     (case b1500_write mb dev (fmt mb 1 1) tr of
        (Inl e, tr1) \<Rightarrow> (Inl e, tr1)
      | (Inr u, tr1) \<Rightarrow>
          with_timeout new_timeout
            (\<lambda>tr2. case ask dev (xe mb) tr2 of
                     (Inl e, tr3) \<Rightarrow> (Inl e, tr3)
                   | (Inr raw_data, tr3) \<Rightarrow> (parser raw_data, tr3))
            tr1)"

text \<open>
  \<^verbatim>\<open>try: ... finally: write(fmt(fmt_format, fmt_mode))\<close>: the restoring write runs
  whatever the body did; when it raises, its exception is the one that leaves the
  statement, otherwise the body's outcome does.
\<close>

definition sweep_try_finally ::
  "message_builder \<Rightarrow> (string \<Rightarrow> error + fmt_response) \<Rightarrow> device \<Rightarrow> real \<Rightarrow> format_and_mode \<Rightarrow>
   transport \<Rightarrow> (error + fmt_response) \<times> transport" where
  "sweep_try_finally mb parser dev new_timeout fm tr =
     (case sweep_try mb parser dev new_timeout tr of
        (body, tr1) \<Rightarrow>
          (case b1500_write mb dev (fmt mb (fm_format fm) (fm_mode fm)) tr1 of
             (Inl e, tr2) \<Rightarrow> (Inl e, tr2)
           | (Inr u, tr2) \<Rightarrow> (body, tr2)))"

text \<open>
  \<^verbatim>\<open>IVSweepMeasurement.get_raw\<close>. The parameter is added to the mainframe, so
  \<^verbatim>\<open>self.instrument\<close> and \<^verbatim>\<open>self.root_instrument\<close> are the same \<^verbatim>\<open>KeysightB1500\<close>.
  \<^verbatim>\<open>by_channel[...]\<close> on a channel that is not a key raises \<^verbatim>\<open>KeyError\<close>;
  \<^verbatim>\<open>measurement_mode['channels'][0]\<close> is reached only with two channels.
\<close>

definition get_raw ::
  "message_builder \<Rightarrow> constants \<Rightarrow> (string \<Rightarrow> error + fmt_response) \<Rightarrow> device \<Rightarrow> instrument \<Rightarrow>
   transport \<Rightarrow> (error + sweep_result) \<times> transport" where
  "get_raw mb cs parser dev inst tr =
     (case get_measurement_mode mb cs dev tr of
        (Inl e, tr1) \<Rightarrow> (Inl e, tr1)
      | (Inr measurement_mode, tr1) \<Rightarrow>
          if length (mm_channels measurement_mode) \<noteq> 2
          then (Inl (ValueError ''Two measurement channels are needed, one for gate current and other for source drain current.''), tr1)
          else
            (case by_channel inst (mm_channels measurement_mode ! 0) of
               None \<Rightarrow> (Inl (KeyError (mm_channels measurement_mode ! 0)), tr1)
             | Some smu \<Rightarrow>
                 if \<not> setup_fnc_already_run smu
                 then (Inl (Exception (''Sweep setup has not yet been run successfully on '' @ full_name smu)), tr1)
                 else
                   (case sweep_timeout smu of
                      Inl e \<Rightarrow> (Inl e, tr1)
                    | Inr new_timeout \<Rightarrow>
                        (case get_response_format_and_mode mb cs dev tr1 of
                           (Inl e, tr2) \<Rightarrow> (Inl e, tr2)
                         | (Inr format_and_mode, tr2) \<Rightarrow>
                             (case sweep_try_finally mb parser dev new_timeout format_and_mode tr2 of
                                (Inl e, tr3) \<Rightarrow> (Inl e, tr3)
                              | (Inr parsed_data, tr3) \<Rightarrow> (Inr (decompose parsed_data), tr3))))))"

section \<open>A concrete mainframe for the examples\<close>

text \<open>
  Decimal text of an integer, as an f-string renders it, and an encoder, a table of
  constants and instruments built from them. They serve the examples only: the
  theorems hold for every encoder, table and device.
\<close>

fun dec :: "nat \<Rightarrow> string" where
  "dec n = (if n < 10 then [''0123456789'' ! n] else dec (n div 10) @ [''0123456789'' ! (n mod 10)])"

declare dec.simps [simp del]

definition show_int :: "int \<Rightarrow> string" where
  "show_int i = (if i < 0 then CHR ''-'' # dec (nat (- i)) else dec (nat i))"

definition ex_render :: "ait_type \<Rightarrow> ait_mode \<Rightarrow> int option \<Rightarrow> string" where
  "ex_render adc_type mode coeff =
     ''AIT '' @ (case adc_type of HIGH_SPEED \<Rightarrow> ''0'' | HIGH_RESOLUTION \<Rightarrow> ''1'') @ '','' @
     (case mode of MANUAL \<Rightarrow> ''1'' | NPLC \<Rightarrow> ''2'') @
     (case coeff of None \<Rightarrow> [] | Some c \<Rightarrow> CHR '','' # show_int c)"

definition ex_builder :: message_builder where
  "ex_builder =
     \<lparr>errx_query = ''ERRX?'',
      lrn_query = (\<lambda>t. ''*LRN? '' @ show_int t),
      fmt = (\<lambda>f m. ''FMT '' @ show_int f @ '','' @ show_int m),
      xe = ''XE'',
      mm = (\<lambda>mode chs. Inr (''MM '' @ show_int mode @
              concat (map (\<lambda>c. CHR '','' # show_int c) (case chs of None \<Rightarrow> [] | Some l \<Rightarrow> l)))),
      ait = ait_spec ex_render\<rparr>"

definition ex_constants :: constants where
  "ex_constants =
     \<lparr>TM_AV_CM_FMT_MM_SETTINGS = 31,
      MM_Mode = [1, 2, 3, 4, 5, 9, 10, 13, 14, 15, 16, 17, 18, 20, 22, 23, 26, 27, 28],
      FMT_Format = [1, 2, 3, 4, 5, 11, 12, 13, 14, 15, 21, 22, 25],
      FMT_Mode = [0, 1, 2, 3, 4, 5, 6, 7, 8, 9, 10]\<rparr>"

text \<open>
  An instrument that accepts every write, reports an empty error queue, answers the
  settings query with \<open>settings\<close> and the sweep with \<open>sweep\<close>.
\<close>

definition ex_device :: "string \<Rightarrow> error + string \<Rightarrow> device" where
  \<open>ex_device settings sweep =
     \<lparr>on_write = (\<lambda>h cmd. None),
      on_ask = (\<lambda>h cmd t.
        if cmd = ''ERRX?'' then Inr ''+0,"No Error."''
        else if cmd = ''*LRN? 31'' then Inr settings
        else if cmd = ''XE'' then sweep
        else Inl (TransportError ''unknown query''))\<rparr>\<close>

text \<open>An instrument that accepts every write and answers every query with \<open>reply\<close>.\<close>

definition ex_replying :: "string \<Rightarrow> device" where
  "ex_replying reply = \<lparr>on_write = (\<lambda>h cmd. None), on_ask = (\<lambda>h cmd t. Inr reply)\<rparr>"

definition ex_settings :: string where
  "ex_settings = ''TM1;AV1,0;CM0;FMT1,0;MM16,1,2''"

definition ex_transport :: transport where
  "ex_transport = \<lparr>trace = [], timeout = 5\<rparr>"

definition ex_smu :: "int \<Rightarrow> int list \<Rightarrow> bool \<Rightarrow> b1500_module" where
  "ex_smu slot chs ready =
     \<lparr>full_name = ''b1500_smu'' @ show_int slot, MODULE_KIND = ''SMU'', slot_nr = slot,
      channels = chs, setup_fnc_already_run = ready, average_coefficient = 4,
      power_line_frequency = 50, step_delay = 2 / 100, sweep_steps = 50\<rparr>"

definition ex_empty :: instrument where
  "ex_empty = \<lparr>submodules = Map.empty, by_slot = Map.empty, by_channel = Map.empty, by_kind = (\<lambda>k. [])\<rparr>"

text \<open>The registry after the SMU in slot 1, with channels 1 and 2, was registered.\<close>

definition ex_registered :: instrument where
  "ex_registered =
     \<lparr>submodules = [''smu1'' \<mapsto> ex_smu 1 [1, 2] True],
      by_slot = [1 \<mapsto> ex_smu 1 [1, 2] True],
      by_channel = [1 \<mapsto> ex_smu 1 [1, 2] True, 2 \<mapsto> ex_smu 1 [1, 2] True],
      by_kind = (\<lambda>k. [])(''SMU'' := [ex_smu 1 [1, 2] True])\<rparr>"

text \<open>An \<^verbatim>\<open>add_submodule\<close> that accepts every name.\<close>

definition ex_add_submodule ::
  "(string \<rightharpoonup> b1500_module) \<Rightarrow> string \<Rightarrow> b1500_module \<Rightarrow> error + (string \<rightharpoonup> b1500_module)" where
  "ex_add_submodule subs name m = Inr (subs(name \<mapsto> m))"

text \<open>A parser stub for the examples: it ignores the text and returns \<open>n\<close> readings.\<close>

definition ex_readings :: "nat \<Rightarrow> fmt_response" where
  "ex_readings n =
     \<lparr>fmt_value = map real [0 ..< n],
      fmt_status = replicate n ''N'',
      fmt_channel = map (\<lambda>i. [''A'', ''B'', ''C''] ! (i mod 3)) [0 ..< n],
      fmt_type = map (\<lambda>i. [''I'', ''I'', ''V''] ! (i mod 3)) [0 ..< n]\<rparr>"

definition ex_parser :: "nat \<Rightarrow> string \<Rightarrow> error + fmt_response" where
  "ex_parser n raw = Inr (ex_readings n)"

section \<open>The write and its error check\<close>

lemma b1500_write_trace:
  "trace (snd (b1500_write mb dev cmd tr)) =
     trace tr @ Written cmd #
       (if on_write dev (trace tr) cmd = None then [Asked (errx_query mb) (timeout tr)] else [])"
  by (simp add: b1500_write_def visa_write_def error_message_def ask_def
           split: option.splits sum.splits)

lemma b1500_write_timeout:
  "timeout (snd (b1500_write mb dev cmd tr)) = timeout tr"
  by (simp add: b1500_write_def visa_write_def error_message_def ask_def
           split: option.splits sum.splits)

lemma b1500_write_ok_iff:
  "fst (b1500_write mb dev cmd tr) = Inr () \<longleftrightarrow>
     on_write dev (trace tr) cmd = None \<and>
     on_ask dev (trace tr @ [Written cmd]) (errx_query mb) (timeout tr) = Inr no_error_literal"
  by (auto simp add: b1500_write_def visa_write_def error_message_def ask_def
           split: option.splits sum.splits)

lemma ex_builder_sel:
  "errx_query ex_builder = ''ERRX?''"
  "xe ex_builder = ''XE''"
  "lrn_query ex_builder t = ''*LRN? '' @ show_int t"
  "fmt ex_builder f m = ''FMT '' @ show_int f @ '','' @ show_int m"
  "mm ex_builder mode chs = Inr (''MM '' @ show_int mode @
      concat (map (\<lambda>c. CHR '','' # show_int c) (case chs of None \<Rightarrow> [] | Some l \<Rightarrow> l)))"
  "ait ex_builder = ait_spec ex_render"
  by (simp_all add: ex_builder_def)

lemma show_int_numeral:
  "show_int 0 = ''0''" "show_int 1 = ''1''" "show_int 2 = ''2''" "show_int 3 = ''3''"
  "show_int 5 = ''5''" "show_int 31 = ''31''" "show_int 1023 = ''1023''"
  by (simp_all add: show_int_def dec.simps)

text \<open>
  Claim C3 gives the no-error sentinel as \<^verbatim>\<open>0,"No Error."\<close>, as the docstring of
  \<^verbatim>\<open>error_message\<close> does. The method compares with \<^verbatim>\<open>+0,"No Error."\<close>: on an
  instrument whose error queue answers \<^verbatim>\<open>0,"No Error."\<close> the write of \<^verbatim>\<open>*RST\<close> is
  sent, the queue is polled once, and \<^verbatim>\<open>RuntimeError\<close> is raised with that text.
\<close>

theorem write_raises_on_documented_no_error_reply:
  \<open>b1500_write ex_builder (ex_replying ''0,"No Error."'') ''*RST'' ex_transport =
     (Inl (RuntimeError ''While setting this parameter received error: 0,"No Error."''),
      \<lparr>trace = [Written ''*RST'', Asked ''ERRX?'' 5], timeout = 5\<rparr>)\<close>
  by (simp add: b1500_write_def visa_write_def error_message_def ask_def ex_replying_def
        ex_builder_def ex_transport_def no_error_literal_def)

text \<open>
  Claim C3, as amended. Every write sends the command and, when the raw write has
  returned, polls the error queue once. The write succeeds exactly when the polled
  text is the literal \<^verbatim>\<open>+0,"No Error."\<close>, with the leading plus sign; on any other
  text it raises \<^verbatim>\<open>RuntimeError\<close> with the whole text appended to its message.
\<close>

theorem write_error_check:
  \<open>trace (snd (b1500_write mb dev cmd tr)) =
     trace tr @ Written cmd #
       (if on_write dev (trace tr) cmd = None then [Asked (errx_query mb) (timeout tr)] else []) \<and>
   (fst (b1500_write mb dev cmd tr) = Inr () \<longleftrightarrow>
      on_write dev (trace tr) cmd = None \<and>
      on_ask dev (trace tr @ [Written cmd]) (errx_query mb) (timeout tr) = Inr ''+0,"No Error."'') \<and>
   (\<forall>msg. on_write dev (trace tr) cmd = None \<and>
      on_ask dev (trace tr @ [Written cmd]) (errx_query mb) (timeout tr) = Inr msg \<and>
      msg \<noteq> ''+0,"No Error."'' \<longrightarrow>
      fst (b1500_write mb dev cmd tr) =
        Inl (RuntimeError (''While setting this parameter received error: '' @ msg)))\<close>
proof -
  have a: "\<forall>msg. on_write dev (trace tr) cmd = None \<and>
      on_ask dev (trace tr @ [Written cmd]) (errx_query mb) (timeout tr) = Inr msg \<and>
      msg \<noteq> no_error_literal \<longrightarrow>
      fst (b1500_write mb dev cmd tr) =
        Inl (RuntimeError (''While setting this parameter received error: '' @ msg))"
    by (simp add: b1500_write_def visa_write_def error_message_def ask_def)
  from a b1500_write_trace [of mb dev cmd tr] b1500_write_ok_iff [of mb dev cmd tr]
  show ?thesis by (simp add: no_error_literal_def)
qed

text \<open>
  Witness for C3: an error queue that answers \<^verbatim>\<open>100,"Undefined GPIB command."\<close> makes
  the write raise with that text after one poll; one that answers
  \<^verbatim>\<open>+0,"No Error."\<close> lets it return.
\<close>

theorem write_error_check_witness:
  \<open>on_write (ex_replying ''100,"Undefined GPIB command."'') (trace ex_transport) ''XYZ'' = None \<and>
   on_ask (ex_replying ''100,"Undefined GPIB command."'') (trace ex_transport @ [Written ''XYZ''])
       (errx_query ex_builder) (timeout ex_transport) = Inr ''100,"Undefined GPIB command."'' \<and>
   fst (b1500_write ex_builder (ex_replying ''100,"Undefined GPIB command."'') ''XYZ'' ex_transport) =
     Inl (RuntimeError ''While setting this parameter received error: 100,"Undefined GPIB command."'') \<and>
   trace (snd (b1500_write ex_builder (ex_replying ''100,"Undefined GPIB command."'') ''XYZ'' ex_transport)) =
     [Written ''XYZ'', Asked ''ERRX?'' 5] \<and>
   fst (b1500_write ex_builder (ex_replying ''+0,"No Error."'') ''*RST'' ex_transport) = Inr ()\<close>
proof -
  let ?bad = \<open>ex_replying ''100,"Undefined GPIB command."''\<close>
  let ?good = \<open>ex_replying ''+0,"No Error."''\<close>
  have a: "on_write ?bad (trace ex_transport) ''XYZ'' = None"
    by (simp add: ex_replying_def)
  have b: \<open>on_ask ?bad (trace ex_transport @ [Written ''XYZ''])
       (errx_query ex_builder) (timeout ex_transport) = Inr ''100,"Undefined GPIB command."''\<close>
    by (simp add: ex_replying_def)
  have c: \<open>''100,"Undefined GPIB command."'' \<noteq> ''+0,"No Error."''\<close> by simp
  have d: "on_write ?good (trace ex_transport) ''*RST'' = None"
    \<open>on_ask ?good (trace ex_transport @ [Written ''*RST'']) (errx_query ex_builder) (timeout ex_transport) =
       Inr ''+0,"No Error."''\<close>
    by (simp_all add: ex_replying_def)
  from write_error_check [of ex_builder ?bad "''XYZ''" ex_transport] a b c
  have A: \<open>fst (b1500_write ex_builder ?bad ''XYZ'' ex_transport) =
     Inl (RuntimeError (''While setting this parameter received error: '' @ ''100,"Undefined GPIB command."'')) \<and>
     trace (snd (b1500_write ex_builder ?bad ''XYZ'' ex_transport)) =
       trace ex_transport @ [Written ''XYZ'', Asked (errx_query ex_builder) (timeout ex_transport)]\<close>
    by simp
  from write_error_check [of ex_builder ?good "''*RST''" ex_transport] d
  have B: "fst (b1500_write ex_builder ?good ''*RST'' ex_transport) = Inr ()"
    by simp
  from A B a b show ?thesis
    by (simp add: ex_builder_sel ex_transport_def)
qed

section \<open>Registration\<close>

lemma fold_channels:
  "fold (\<lambda>ch bc. bc(ch \<mapsto> m)) chs bc c = (if c \<in> set chs then Some m else bc c)"
  by (induction chs arbitrary: bc) auto

lemma add_module_accepts:
  "add_submodule (submodules inst) name m = Inr subs \<Longrightarrow>
   add_module add_submodule name m inst =
     Inr \<lparr>submodules = subs,
          by_slot = (by_slot inst)(slot_nr m \<mapsto> m),
          by_channel = (\<lambda>c. if c \<in> set (channels m) then Some m else by_channel inst c),
          by_kind = (by_kind inst)(MODULE_KIND m := by_kind inst (MODULE_KIND m) @ [m])\<rparr>"
  by (simp add: add_module_def fold_channels fun_eq_iff)

lemma add_module_returns:
  "add_module add_submodule name m inst = Inr inst' \<Longrightarrow>
   \<exists>subs. add_submodule (submodules inst) name m = Inr subs"
  by (auto simp add: add_module_def split: sum.splits)

lemma ex_smu_sel:
  "slot_nr (ex_smu slot chs ready) = slot"
  "channels (ex_smu slot chs ready) = chs"
  "MODULE_KIND (ex_smu slot chs ready) = ''SMU''"
  "setup_fnc_already_run (ex_smu slot chs ready) = ready"
  "average_coefficient (ex_smu slot chs ready) = 4"
  "power_line_frequency (ex_smu slot chs ready) = 50"
  "step_delay (ex_smu slot chs ready) = 2 / 100"
  "sweep_steps (ex_smu slot chs ready) = 50"
  by (simp_all add: ex_smu_def)

lemma ex_first_registration:
  "add_module ex_add_submodule ''smu1'' (ex_smu 1 [1, 2] True) ex_empty = Inr ex_registered"
  by (simp add: add_module_def ex_add_submodule_def ex_empty_def ex_registered_def ex_smu_sel fun_eq_iff)

text \<open>
  Claim C10. When \<^verbatim>\<open>add_module(name, m)\<close> returns, \<open>by_slot\<close> maps the slot of \<open>m\<close>
  to \<open>m\<close>, \<open>by_channel\<close> maps every channel of \<open>m\<close> to \<open>m\<close>, \<open>m\<close> is appended to
  the list of its kind, and the entries of every other slot, channel and kind are
  what they were. (This holds for every registry, with or without conflicting
  entries.)
\<close>

theorem add_module_indices:
  assumes "add_module add_submodule name m inst = Inr inst'"
  shows "by_slot inst' (slot_nr m) = Some m \<and>
         (\<forall>ch \<in> set (channels m). by_channel inst' ch = Some m) \<and>
         by_kind inst' (MODULE_KIND m) = by_kind inst (MODULE_KIND m) @ [m] \<and>
         (\<forall>s. s \<noteq> slot_nr m \<longrightarrow> by_slot inst' s = by_slot inst s) \<and>
         (\<forall>ch. ch \<notin> set (channels m) \<longrightarrow> by_channel inst' ch = by_channel inst ch) \<and>
         (\<forall>k. k \<noteq> MODULE_KIND m \<longrightarrow> by_kind inst' k = by_kind inst k)"
proof -
  from assms obtain subs where "add_submodule (submodules inst) name m = Inr subs"
    using add_module_returns by blast
  from add_module_accepts [of add_submodule inst name m subs, OF this] assms
  have "inst' = \<lparr>submodules = subs,
          by_slot = (by_slot inst)(slot_nr m \<mapsto> m),
          by_channel = (\<lambda>c. if c \<in> set (channels m) then Some m else by_channel inst c),
          by_kind = (by_kind inst)(MODULE_KIND m := by_kind inst (MODULE_KIND m) @ [m])\<rparr>"
    by simp
  then show ?thesis by simp
qed

theorem add_module_indices_witness:
  "\<exists>inst'. add_module ex_add_submodule ''smu2'' (ex_smu 2 [3, 4] False) ex_registered = Inr inst' \<and>
      by_slot inst' 2 = Some (ex_smu 2 [3, 4] False) \<and>
      by_channel inst' 3 = Some (ex_smu 2 [3, 4] False) \<and>
      by_channel inst' 4 = Some (ex_smu 2 [3, 4] False) \<and>
      by_kind inst' ''SMU'' = [ex_smu 1 [1, 2] True, ex_smu 2 [3, 4] False] \<and>
      by_slot inst' 1 = Some (ex_smu 1 [1, 2] True) \<and>
      by_channel inst' 1 = Some (ex_smu 1 [1, 2] True) \<and>
      by_channel inst' 7 = None \<and>
      by_kind inst' ''CMU'' = []"
proof -
  have "\<exists>subs. ex_add_submodule (submodules ex_registered) ''smu2'' (ex_smu 2 [3, 4] False) = Inr subs"
    by (simp add: ex_add_submodule_def)
  then obtain inst' where
    r: "add_module ex_add_submodule ''smu2'' (ex_smu 2 [3, 4] False) ex_registered = Inr inst'"
    by (auto simp add: add_module_def)
  have old: "by_slot ex_registered 1 = Some (ex_smu 1 [1, 2] True)"
    "by_channel ex_registered 1 = Some (ex_smu 1 [1, 2] True)"
    "by_channel ex_registered 7 = None"
    "by_kind ex_registered ''SMU'' = [ex_smu 1 [1, 2] True]"
    "by_kind ex_registered ''CMU'' = []"
    by (simp_all add: ex_registered_def)
  from add_module_indices [OF r] old
  have "by_slot inst' 2 = Some (ex_smu 2 [3, 4] False) \<and>
      by_channel inst' 3 = Some (ex_smu 2 [3, 4] False) \<and>
      by_channel inst' 4 = Some (ex_smu 2 [3, 4] False) \<and>
      by_kind inst' ''SMU'' = [ex_smu 1 [1, 2] True, ex_smu 2 [3, 4] False] \<and>
      by_slot inst' 1 = Some (ex_smu 1 [1, 2] True) \<and>
      by_channel inst' 1 = Some (ex_smu 1 [1, 2] True) \<and>
      by_channel inst' 7 = None \<and>
      by_kind inst' ''CMU'' = []"
    by (simp add: ex_smu_sel)
  with r show ?thesis by blast
qed

section \<open>Parsing the measurement mode and the format\<close>

lemma contains_tag_iff:
  "contains_tag tag s \<longleftrightarrow> (\<exists>pre post. s = pre @ tag @ post)"
proof (induction s)
  case Nil
  then show ?case by simp
next
  case (Cons c cs)
  have "take (length tag) (c # cs) = tag \<longleftrightarrow> (\<exists>post. c # cs = tag @ post)"
    by (metis append_eq_conv_conj append_take_drop_id)
  moreover have "(\<exists>pre post. c # cs = pre @ tag @ post) \<longleftrightarrow>
      (\<exists>post. c # cs = tag @ post) \<or> (\<exists>pre post. cs = pre @ tag @ post)"
    by (auto simp add: Cons_eq_append_conv)
  ultimately show ?case using Cons.IH by simp
qed

lemma match_tagged_prefix:
  "match_tagged tag s = Some g \<Longrightarrow> take (length tag) s = tag"
  by (simp add: match_tagged_def split: if_splits)

lemma re_search_contains:
  "re_search tag s = Some g \<Longrightarrow> contains_tag tag s"
proof (induction s)
  case Nil
  then show ?case using match_tagged_prefix [of tag "[]" g] by simp
next
  case (Cons c cs)
  then show ?case
    using match_tagged_prefix [of tag "c # cs"]
    by (auto split: option.splits)
qed

lemma re_search_absent:
  "\<not> contains_tag tag s \<Longrightarrow> re_search tag s = None"
  using re_search_contains by (cases "re_search tag s") auto

lemma get_measurement_mode_eq:
  "get_measurement_mode mb cs dev tr =
     (case on_ask dev (trace tr) (lrn_query mb (TM_AV_CM_FMT_MM_SETTINGS cs)) (timeout tr) of
        Inl e \<Rightarrow> Inl e
      | Inr response \<Rightarrow> parse_measurement_mode cs response,
      tr\<lparr>trace := trace tr @ [Asked (lrn_query mb (TM_AV_CM_FMT_MM_SETTINGS cs)) (timeout tr)]\<rparr>)"
  by (simp add: get_measurement_mode_def ask_def split: sum.splits)

lemma get_response_format_and_mode_eq:
  "get_response_format_and_mode mb cs dev tr =
     (case on_ask dev (trace tr) (lrn_query mb (TM_AV_CM_FMT_MM_SETTINGS cs)) (timeout tr) of
        Inl e \<Rightarrow> Inl e
      | Inr response \<Rightarrow> parse_format_and_mode cs response,
      tr\<lparr>trace := trace tr @ [Asked (lrn_query mb (TM_AV_CM_FMT_MM_SETTINGS cs)) (timeout tr)]\<rparr>)"
  by (simp add: get_response_format_and_mode_def ask_def split: sum.splits)

lemma ex_ask_settings:
  "on_ask (ex_device settings sweep) h (lrn_query ex_builder (TM_AV_CM_FMT_MM_SETTINGS ex_constants)) t = Inr settings"
  by (simp add: ex_device_def ex_builder_sel ex_constants_def show_int_numeral)


text \<open>
  Claim C8. When the settings response does not contain the tag \<^verbatim>\<open>MM\<close>,
  \<^verbatim>\<open>get_measurement_mode\<close> raises \<^verbatim>\<open>ValueError\<close> (\<^verbatim>\<open>Measurement Mode (MM) not found.\<close>), and
  when it does not contain \<^verbatim>\<open>FMT\<close>, \<^verbatim>\<open>get_response_format_and_mode\<close> raises
  \<^verbatim>\<open>ValueError\<close> (\<^verbatim>\<open>Measurement Mode (FMT) not found.\<close>): no dictionary is returned,
  neither a default nor a partly filled one. \<^verbatim>\<open>ValueError\<close> is the driver's exception
  for what the spec calls a protocol mismatch.
\<close>

theorem missing_tag_is_an_error:
  "(on_ask dev (trace tr) (lrn_query mb (TM_AV_CM_FMT_MM_SETTINGS cs)) (timeout tr) = Inr response \<and>
      \<not> contains_tag ''MM'' response \<longrightarrow>
      fst (get_measurement_mode mb cs dev tr) = Inl (ValueError ''Measurement Mode (MM) not found.'')) \<and>
   (on_ask dev (trace tr) (lrn_query mb (TM_AV_CM_FMT_MM_SETTINGS cs)) (timeout tr) = Inr response \<and>
      \<not> contains_tag ''FMT'' response \<longrightarrow>
      fst (get_response_format_and_mode mb cs dev tr) = Inl (ValueError ''Measurement Mode (FMT) not found.''))"
  by (simp add: get_measurement_mode_eq get_response_format_and_mode_eq
        parse_measurement_mode_def parse_format_and_mode_def re_search_absent)

text \<open>
  Witness for C8: the response \<^verbatim>\<open>TM1;AV1,0;CM0\<close> has neither tag, and both methods
  raise.
\<close>

theorem missing_tag_is_an_error_witness:
  "on_ask (ex_device ''TM1;AV1,0;CM0'' (Inl Timeout)) (trace ex_transport)
      (lrn_query ex_builder (TM_AV_CM_FMT_MM_SETTINGS ex_constants)) (timeout ex_transport) = Inr ''TM1;AV1,0;CM0'' \<and>
   \<not> contains_tag ''MM'' ''TM1;AV1,0;CM0'' \<and> \<not> contains_tag ''FMT'' ''TM1;AV1,0;CM0'' \<and>
   fst (get_measurement_mode ex_builder ex_constants (ex_device ''TM1;AV1,0;CM0'' (Inl Timeout)) ex_transport) =
     Inl (ValueError ''Measurement Mode (MM) not found.'') \<and>
   fst (get_response_format_and_mode ex_builder ex_constants (ex_device ''TM1;AV1,0;CM0'' (Inl Timeout)) ex_transport) =
     Inl (ValueError ''Measurement Mode (FMT) not found.'')"
proof -
  have a: "on_ask (ex_device ''TM1;AV1,0;CM0'' (Inl Timeout)) (trace ex_transport)
      (lrn_query ex_builder (TM_AV_CM_FMT_MM_SETTINGS ex_constants)) (timeout ex_transport) = Inr ''TM1;AV1,0;CM0''"
    by (rule ex_ask_settings)
  have b: "\<not> contains_tag ''MM'' ''TM1;AV1,0;CM0''" by simp
  have c: "\<not> contains_tag ''FMT'' ''TM1;AV1,0;CM0''" by simp
  from missing_tag_is_an_error [of "ex_device ''TM1;AV1,0;CM0'' (Inl Timeout)" ex_transport ex_builder
      ex_constants "''TM1;AV1,0;CM0''"] a b c
  show ?thesis by blast
qed




section \<open>The coefficient of the integration time\<close>




section \<open>The sweep\<close>










lemma ex_get_measurement_mode:
  "get_measurement_mode ex_builder ex_constants (ex_device ex_settings sweep) tr =
     (Inr \<lparr>mm_mode = 16, mm_channels = [1, 2]\<rparr>,
      tr\<lparr>trace := trace tr @ [Asked ''*LRN? 31'' (timeout tr)]\<rparr>)"
  by (simp add: get_measurement_mode_eq ex_ask_settings)
     (simp add: ex_builder_sel ex_constants_def show_int_numeral ex_settings_def
        parse_measurement_mode_def match_tagged_def comma_then_def re_end_def
        int_of_group_def py_int_def py_strip_def py_isspace_def py_digits_def digit_val_def py_enum_def)




lemma ex_by_channel:
  "by_channel ex_registered 1 = Some (ex_smu 1 [1, 2] True)"
  "by_channel ex_registered 2 = Some (ex_smu 1 [1, 2] True)"
  "by_channel ex_registered 3 = None"
  by (simp_all add: ex_registered_def)



text \<open>
  Claim C6. When the measurement mode does not list exactly two channels, \<^verbatim>\<open>get_raw\<close>
  raises \<^verbatim>\<open>ValueError\<close> (two measurement channels are needed); when the module of
  the first listed channel has not run its sweep setup, it raises \<^verbatim>\<open>Exception\<close>
  (sweep setup has not yet been run). These are the driver's exceptions for what the
  spec calls an invalid sweep configuration and a sweep that is not configured. In
  both cases the only thing sent is the settings query of \<^verbatim>\<open>get_measurement_mode\<close>:
  the sweep-execute command has not been transmitted.
\<close>

theorem validation_precedes_execution:
  "(fst (get_measurement_mode mb cs dev tr) = Inr m \<and> length (mm_channels m) \<noteq> 2 \<longrightarrow>
      fst (get_raw mb cs parser dev inst tr) =
        Inl (ValueError ''Two measurement channels are needed, one for gate current and other for source drain current.'') \<and>
      trace (snd (get_raw mb cs parser dev inst tr)) =
        trace tr @ [Asked (lrn_query mb (TM_AV_CM_FMT_MM_SETTINGS cs)) (timeout tr)] \<and>
      (\<forall>t. lrn_query mb (TM_AV_CM_FMT_MM_SETTINGS cs) \<noteq> xe mb \<longrightarrow>
           Asked (xe mb) t \<notin> set (drop (length (trace tr)) (trace (snd (get_raw mb cs parser dev inst tr)))))) \<and>
   (fst (get_measurement_mode mb cs dev tr) = Inr m \<and> length (mm_channels m) = 2 \<and>
      by_channel inst (mm_channels m ! 0) = Some smu \<and> \<not> setup_fnc_already_run smu \<longrightarrow>
      fst (get_raw mb cs parser dev inst tr) =
        Inl (Exception (''Sweep setup has not yet been run successfully on '' @ full_name smu)) \<and>
      trace (snd (get_raw mb cs parser dev inst tr)) =
        trace tr @ [Asked (lrn_query mb (TM_AV_CM_FMT_MM_SETTINGS cs)) (timeout tr)] \<and>
      (\<forall>t. lrn_query mb (TM_AV_CM_FMT_MM_SETTINGS cs) \<noteq> xe mb \<longrightarrow>
           Asked (xe mb) t \<notin> set (drop (length (trace tr)) (trace (snd (get_raw mb cs parser dev inst tr))))))"
proof -
  have mode: "get_measurement_mode mb cs dev tr =
      (fst (get_measurement_mode mb cs dev tr),
       tr\<lparr>trace := trace tr @ [Asked (lrn_query mb (TM_AV_CM_FMT_MM_SETTINGS cs)) (timeout tr)]\<rparr>)"
    by (simp add: get_measurement_mode_eq)
  have a: "fst (get_raw mb cs parser dev inst tr) =
        Inl (ValueError ''Two measurement channels are needed, one for gate current and other for source drain current.'') \<and>
      trace (snd (get_raw mb cs parser dev inst tr)) =
        trace tr @ [Asked (lrn_query mb (TM_AV_CM_FMT_MM_SETTINGS cs)) (timeout tr)]"
    if "fst (get_measurement_mode mb cs dev tr) = Inr m" "length (mm_channels m) \<noteq> 2"
    using that mode by (simp add: get_raw_def)
  have b: "fst (get_raw mb cs parser dev inst tr) =
        Inl (Exception (''Sweep setup has not yet been run successfully on '' @ full_name smu)) \<and>
      trace (snd (get_raw mb cs parser dev inst tr)) =
        trace tr @ [Asked (lrn_query mb (TM_AV_CM_FMT_MM_SETTINGS cs)) (timeout tr)]"
    if "fst (get_measurement_mode mb cs dev tr) = Inr m" "length (mm_channels m) = 2"
       "by_channel inst (mm_channels m ! 0) = Some smu" "\<not> setup_fnc_already_run smu"
    using that mode by (simp add: get_raw_def)
  from a b show ?thesis by auto
qed

lemma ex_three_channels:
  "parse_measurement_mode ex_constants ''MM16,1,2,3'' = Inr \<lparr>mm_mode = 16, mm_channels = [1, 2, 3]\<rparr>"
  by (simp add: ex_constants_def parse_measurement_mode_def match_tagged_def comma_then_def re_end_def
        int_of_group_def py_int_def py_strip_def py_isspace_def py_digits_def digit_val_def py_enum_def)

text \<open>
  Witness for C6: a mode with three channels, and a sweep source whose setup has not
  run; both runs fail after the settings query alone.
\<close>

theorem validation_precedes_execution_witness:
  "fst (get_measurement_mode ex_builder ex_constants (ex_device ''MM16,1,2,3'' (Inr ''data'')) ex_transport) =
     Inr \<lparr>mm_mode = 16, mm_channels = [1, 2, 3]\<rparr> \<and>
   fst (get_raw ex_builder ex_constants (ex_parser 9) (ex_device ''MM16,1,2,3'' (Inr ''data'')) ex_registered ex_transport) =
     Inl (ValueError ''Two measurement channels are needed, one for gate current and other for source drain current.'') \<and>
   trace (snd (get_raw ex_builder ex_constants (ex_parser 9) (ex_device ''MM16,1,2,3'' (Inr ''data'')) ex_registered ex_transport)) =
     [Asked ''*LRN? 31'' 5] \<and>
   fst (get_measurement_mode ex_builder ex_constants (ex_device ex_settings (Inr ''data'')) ex_transport) =
     Inr \<lparr>mm_mode = 16, mm_channels = [1, 2]\<rparr> \<and>
   by_channel (ex_registered\<lparr>by_channel := [1 \<mapsto> ex_smu 1 [1, 2] False]\<rparr>) 1 = Some (ex_smu 1 [1, 2] False) \<and>
   fst (get_raw ex_builder ex_constants (ex_parser 9) (ex_device ex_settings (Inr ''data''))
          (ex_registered\<lparr>by_channel := [1 \<mapsto> ex_smu 1 [1, 2] False]\<rparr>) ex_transport) =
     Inl (Exception ''Sweep setup has not yet been run successfully on b1500_smu1'') \<and>
   trace (snd (get_raw ex_builder ex_constants (ex_parser 9) (ex_device ex_settings (Inr ''data''))
          (ex_registered\<lparr>by_channel := [1 \<mapsto> ex_smu 1 [1, 2] False]\<rparr>) ex_transport)) =
     [Asked ''*LRN? 31'' 5] \<and>
   Asked ''XE'' 6 \<notin> set (drop (length (trace ex_transport))
      (trace (snd (get_raw ex_builder ex_constants (ex_parser 9) (ex_device ex_settings (Inr ''data''))
          (ex_registered\<lparr>by_channel := [1 \<mapsto> ex_smu 1 [1, 2] False]\<rparr>) ex_transport))))"
proof -
  let ?dev3 = "ex_device ''MM16,1,2,3'' (Inr ''data'')"
  let ?dev = "ex_device ex_settings (Inr ''data'')"
  let ?inst = "ex_registered\<lparr>by_channel := [1 \<mapsto> ex_smu 1 [1, 2] False]\<rparr>"
  have a1: "fst (get_measurement_mode ex_builder ex_constants ?dev3 ex_transport) =
     Inr \<lparr>mm_mode = 16, mm_channels = [1, 2, 3]\<rparr>"
    by (simp add: get_measurement_mode_eq ex_ask_settings ex_three_channels)
  have a2: "length (mm_channels \<lparr>mm_mode = 16, mm_channels = [1, 2, 3]\<rparr>) \<noteq> 2" by simp
  have b1: "fst (get_measurement_mode ex_builder ex_constants ?dev ex_transport) =
     Inr \<lparr>mm_mode = 16, mm_channels = [1, 2]\<rparr>"
    by (simp add: ex_get_measurement_mode)
  have b2: "length (mm_channels \<lparr>mm_mode = 16, mm_channels = [1, 2]\<rparr>) = 2" by simp
  have b3: "by_channel ?inst (mm_channels \<lparr>mm_mode = 16, mm_channels = [1, 2]\<rparr> ! 0) = Some (ex_smu 1 [1, 2] False)"
    by simp
  have b4: "\<not> setup_fnc_already_run (ex_smu 1 [1, 2] False)" by (simp add: ex_smu_sel)
  have x: "lrn_query ex_builder (TM_AV_CM_FMT_MM_SETTINGS ex_constants) \<noteq> xe ex_builder"
    by (simp add: ex_builder_sel)
  have n: "full_name (ex_smu 1 [1, 2] False) = ''b1500_smu1''"
    by (simp add: ex_smu_def show_int_numeral)
  from validation_precedes_execution [of ex_builder ex_constants ?dev3 ex_transport
      "\<lparr>mm_mode = 16, mm_channels = [1, 2, 3]\<rparr>" "ex_parser 9" ex_registered] a1 a2
  have A: "fst (get_raw ex_builder ex_constants (ex_parser 9) ?dev3 ex_registered ex_transport) =
             Inl (ValueError ''Two measurement channels are needed, one for gate current and other for source drain current.'') \<and>
           trace (snd (get_raw ex_builder ex_constants (ex_parser 9) ?dev3 ex_registered ex_transport)) =
             trace ex_transport @ [Asked (lrn_query ex_builder (TM_AV_CM_FMT_MM_SETTINGS ex_constants)) (timeout ex_transport)]"
    by blast
  from validation_precedes_execution [of ex_builder ex_constants ?dev ex_transport
      "\<lparr>mm_mode = 16, mm_channels = [1, 2]\<rparr>" "ex_parser 9" ?inst "ex_smu 1 [1, 2] False"] b1 b2 b3 b4 x
  have B: "fst (get_raw ex_builder ex_constants (ex_parser 9) ?dev ?inst ex_transport) =
             Inl (Exception (''Sweep setup has not yet been run successfully on '' @ full_name (ex_smu 1 [1, 2] False))) \<and>
           trace (snd (get_raw ex_builder ex_constants (ex_parser 9) ?dev ?inst ex_transport)) =
             trace ex_transport @ [Asked (lrn_query ex_builder (TM_AV_CM_FMT_MM_SETTINGS ex_constants)) (timeout ex_transport)] \<and>
           Asked (xe ex_builder) 6 \<notin> set (drop (length (trace ex_transport))
              (trace (snd (get_raw ex_builder ex_constants (ex_parser 9) ?dev ?inst ex_transport))))"
    by blast
  from A B a1 b1 b3 n show ?thesis
    by (simp add: ex_builder_sel ex_constants_def show_int_numeral ex_transport_def)
qed












section \<open>Registration of a slot or channel that is taken\<close>

text \<open>
  Claim C5 says that registering a module whose slot or channel is already taken fails
  and never overwrites. \<^verbatim>\<open>add_module\<close> has no such check. Here the SMU in slot 1 with
  channels 1 and 2 is registered, and then a second, different module that also claims
  slot 1 and channel 2: the second registration returns normally, and slot 1 and
  channel 2 now resolve to the second module.
\<close>

theorem duplicate_registration_overwrites:
  "add_module ex_add_submodule ''smu1'' (ex_smu 1 [1, 2] True) ex_empty = Inr ex_registered \<and>
   by_slot ex_registered 1 = Some (ex_smu 1 [1, 2] True) \<and>
   by_channel ex_registered 2 = Some (ex_smu 1 [1, 2] True) \<and>
   \<not> isl (add_module ex_add_submodule ''smu2'' (ex_smu 1 [2, 3] False) ex_registered) \<and>
   by_slot (projr (add_module ex_add_submodule ''smu2'' (ex_smu 1 [2, 3] False) ex_registered)) 1 =
     Some (ex_smu 1 [2, 3] False) \<and>
   by_channel (projr (add_module ex_add_submodule ''smu2'' (ex_smu 1 [2, 3] False) ex_registered)) 2 =
     Some (ex_smu 1 [2, 3] False) \<and>
   ex_smu 1 [2, 3] False \<noteq> ex_smu 1 [1, 2] True"
  by (simp add: ex_first_registration)
     (simp add: add_module_def ex_add_submodule_def ex_registered_def ex_smu_sel fold_channels, simp add: ex_smu_def)

text \<open>
  Claim C5, as amended. Registration does not look at what is registered: whenever the
  base class accepts the name, \<^verbatim>\<open>add_module\<close> returns, and afterwards the module's
  slot and each of its channels resolve to the new module, whatever they resolved to
  before (the last registration wins, so a channel still resolves to one module at a
  time). Resolving an unregistered channel fails: in \<^verbatim>\<open>get_raw\<close>, the lookup
  \<^verbatim>\<open>by_channel[...]\<close> of the first listed channel raises \<^verbatim>\<open>KeyError\<close>.
\<close>

theorem registration_overwrites:
  "(\<forall>subs. add_submodule (submodules inst) name m = Inr subs \<longrightarrow>
      (\<exists>inst'. add_module add_submodule name m inst = Inr inst' \<and>
         by_slot inst' (slot_nr m) = Some m \<and>
         (\<forall>ch \<in> set (channels m). by_channel inst' ch = Some m))) \<and>
   (\<forall>mmode. fst (get_measurement_mode mb cs dev tr) = Inr mmode \<and> length (mm_channels mmode) = 2 \<and>
      by_channel inst (mm_channels mmode ! 0) = None \<longrightarrow>
      fst (get_raw mb cs parser dev inst tr) = Inl (KeyError (mm_channels mmode ! 0)))"
proof -
  have a: "\<exists>inst'. add_module add_submodule name m inst = Inr inst' \<and>
         by_slot inst' (slot_nr m) = Some m \<and>
         (\<forall>ch \<in> set (channels m). by_channel inst' ch = Some m)"
    if "add_submodule (submodules inst) name m = Inr subs" for subs
    using add_module_accepts [of add_submodule inst name m subs, OF that] by simp
  have b: "fst (get_raw mb cs parser dev inst tr) = Inl (KeyError (mm_channels mmode ! 0))"
    if "fst (get_measurement_mode mb cs dev tr) = Inr mmode" "length (mm_channels mmode) = 2"
       "by_channel inst (mm_channels mmode ! 0) = None" for mmode
    using that by (cases "get_measurement_mode mb cs dev tr") (simp add: get_raw_def)
  from a b show ?thesis by blast
qed

text \<open>
  Witness for C5: channel 2 of the registry belongs to the first SMU; the second
  module is registered over it. On the empty registry, channel 1 of the measurement
  mode is unknown and the run raises \<^verbatim>\<open>KeyError\<close>.
\<close>

theorem registration_overwrites_witness:
  "ex_add_submodule (submodules ex_registered) ''smu2'' (ex_smu 1 [2, 3] False) =
     Inr ((submodules ex_registered)(''smu2'' \<mapsto> ex_smu 1 [2, 3] False)) \<and>
   by_channel ex_registered 2 = Some (ex_smu 1 [1, 2] True) \<and>
   (\<exists>inst'. add_module ex_add_submodule ''smu2'' (ex_smu 1 [2, 3] False) ex_registered = Inr inst' \<and>
      by_slot inst' 1 = Some (ex_smu 1 [2, 3] False) \<and>
      by_channel inst' 2 = Some (ex_smu 1 [2, 3] False) \<and>
      by_channel inst' 3 = Some (ex_smu 1 [2, 3] False)) \<and>
   fst (get_measurement_mode ex_builder ex_constants (ex_device ex_settings (Inr ''data'')) ex_transport) =
     Inr \<lparr>mm_mode = 16, mm_channels = [1, 2]\<rparr> \<and>
   by_channel ex_empty 1 = None \<and>
   fst (get_raw ex_builder ex_constants (ex_parser 9) (ex_device ex_settings (Inr ''data'')) ex_empty ex_transport) =
     Inl (KeyError 1)"
proof -
  let ?m = "ex_smu 1 [2, 3] False"
  let ?dev = "ex_device ex_settings (Inr ''data'')"
  have a: "ex_add_submodule (submodules ex_registered) ''smu2'' ?m =
     Inr ((submodules ex_registered)(''smu2'' \<mapsto> ?m))"
    by (simp add: ex_add_submodule_def)
  have b1: "fst (get_measurement_mode ex_builder ex_constants ?dev ex_transport) =
     Inr \<lparr>mm_mode = 16, mm_channels = [1, 2]\<rparr>"
    by (simp add: ex_get_measurement_mode)
  have b2: "by_channel ex_empty 1 = None" by (simp add: ex_empty_def)
  from registration_overwrites [of ex_add_submodule ex_registered "''smu2''" ?m
      ex_builder ex_constants ?dev ex_transport "ex_parser 9"] a
  have A: "\<exists>inst'. add_module ex_add_submodule ''smu2'' ?m ex_registered = Inr inst' \<and>
         by_slot inst' (slot_nr ?m) = Some ?m \<and>
         (\<forall>ch \<in> set (channels ?m). by_channel inst' ch = Some ?m)"
    by blast
  from registration_overwrites [of ex_add_submodule ex_empty "''smu2''" ?m
      ex_builder ex_constants ?dev ex_transport "ex_parser 9"] b1 b2
  have B: "fst (get_raw ex_builder ex_constants (ex_parser 9) ?dev ex_empty ex_transport) = Inl (KeyError 1)"
    by simp
  from A B a b1 b2 show ?thesis by (simp add: ex_smu_sel ex_by_channel)
qed

end
